theory Spec2Isabelle
  imports Complex_Main
begin

section \<open>Long-term memory: the vector store (vector\_store.py)\<close>

text \<open>
  The Qdrant client, the sentence-transformer model, the chat model, \<open>uuid4\<close>,
  \<open>datetime.now\<close> and Python's \<open>hash\<close> are outside the repository. They are the
  environment of the model: a record of functions that says what each of them answers.
  Every call of the client or of the chat model is numbered (\<open>calls\<close>) and logged
  (\<open>events\<close>); \<open>fault env n\<close> is the exception the call number \<open>n\<close> raises, if
  any, and \<open>uuid4 env n\<close> and \<open>now_isoformat env n\<close> are what \<open>str(uuid.uuid4())\<close>
  and \<open>datetime.now().isoformat()\<close> give once \<open>n\<close> calls have been made. The
  embedding \<open>encode\<close> is a total function into a type of vectors, and \<open>cosine\<close> is
  the score the index gives to two vectors, a real number. The index is modelled as the
  list of its points: upsert is keyed by the point id, and a search is exact, the best
  hits first, hits of equal score in the order of the list. Payload values are strings.
  Logging calls of the source are left out.
\<close>

datatype exn =
    ResponseHandlingException
  | UnexpectedResponse
  | AttributeError
  | TypeError
  | ValueError
  | HTTPError
  | OSError
  | TextToImageError
  | OtherException

type_synonym 'a result = "exn + 'a"

type_synonym dict = "string \<rightharpoonup> string"

text \<open>A point of the collection: \<open>PointStruct(id, vector, payload)\<close>.\<close>

record 'v point =
  point_id :: string
  point_vector :: 'v
  point_payload :: "dict option"

text \<open>A search hit of the client: \<open>ScoredPoint\<close> with its optional payload.\<close>

record hit =
  hit_id :: string
  hit_payload :: "dict option"
  hit_score :: real

text \<open>The \<open>Memory\<close> dataclass.\<close>

record memory =
  mem_text :: string
  mem_metadata :: dict
  mem_score :: "real option"

definition mem_id :: "memory \<Rightarrow> string option" where
  "mem_id m = mem_metadata m ''id''"

text \<open>The \<open>MemoryAnalysis\<close> model of memory\_manager.py.\<close>

record MemoryAnalysis =
  is_important :: bool
  formatted_memory :: "string option"

datatype llm_reply =
    Raises exn
  | NotAnalysis
  | Analysis MemoryAnalysis

datatype event =
    Ainvoke string
  | GetCollections
  | Sleep nat
  | CreateCollection
  | Search nat
  | Upsert string

record 'v env =
  encode :: "string \<Rightarrow> 'v"
  cosine :: "'v \<Rightarrow> 'v \<Rightarrow> real"
  fault :: "nat \<Rightarrow> exn option"
  ainvoke :: "string \<Rightarrow> llm_reply"
  uuid4 :: "nat \<Rightarrow> string"
  now_isoformat :: "nat \<Rightarrow> string"
  py_hash :: "string \<Rightarrow> int"
  MEMORY_TOP_K :: nat

text \<open>
  The index: the points of the collection \<open>long_term_memory\<close> (\<open>None\<close> when the
  collection does not exist), the number of calls made so far and their log.
\<close>

record 'v world =
  collection :: "'v point list option"
  calls :: nat
  events :: "event list"

definition COLLECTION_NAME :: string where
  "COLLECTION_NAME = ''long_term_memory''"

definition SIMILARITY_THRESHOLD :: real where
  "SIMILARITY_THRESHOLD = 0.9"

definition max_retries :: nat where
  "max_retries = 3"

subsection \<open>The client\<close>

text \<open>The world after one more call, logged as \<open>ev\<close>.\<close>

definition tick :: "event \<Rightarrow> 'v world \<Rightarrow> 'v world" where
  "tick ev w = w\<lparr>calls := Suc (calls w), events := events w @ [ev]\<rparr>"

definition call :: "'v env \<Rightarrow> event \<Rightarrow> 'v world \<Rightarrow> exn option \<times> 'v world" where
  "call env ev w = (fault env (calls w), tick ev w)"

definition sleep :: "nat \<Rightarrow> 'v world \<Rightarrow> 'v world" where
  "sleep n w = w\<lparr>events := events w @ [Sleep n]\<rparr>"

definition client_get_collections :: "'v env \<Rightarrow> 'v world \<Rightarrow> string list result \<times> 'v world" where
  "client_get_collections env w =
     (case call env GetCollections w of
        (Some e, w') \<Rightarrow> (Inl e, w')
      | (None, w') \<Rightarrow>
          (Inr (case collection w' of None \<Rightarrow> [] | Some _ \<Rightarrow> [COLLECTION_NAME]), w'))"

definition client_create_collection :: "'v env \<Rightarrow> 'v world \<Rightarrow> unit result \<times> 'v world" where
  "client_create_collection env w =
     (case call env CreateCollection w of
        (Some e, w') \<Rightarrow> (Inl e, w')
      | (None, w') \<Rightarrow>
          (case collection w' of
             Some _ \<Rightarrow> (Inl UnexpectedResponse, w')
           | None \<Rightarrow> (Inr (), w'\<lparr>collection := Some []\<rparr>)))"

text \<open>Upsert is keyed by the point id: an existing point is replaced where it stands.\<close>

fun upsert_point :: "'v point \<Rightarrow> 'v point list \<Rightarrow> 'v point list" where
  "upsert_point p [] = [p]"
| "upsert_point p (q # qs) =
     (if point_id q = point_id p then p # qs else q # upsert_point p qs)"

definition client_upsert :: "'v env \<Rightarrow> 'v point \<Rightarrow> 'v world \<Rightarrow> unit result \<times> 'v world" where
  "client_upsert env p w =
     (case call env (Upsert (point_id p)) w of
        (Some e, w') \<Rightarrow> (Inl e, w')
      | (None, w') \<Rightarrow>
          (case collection w' of
             None \<Rightarrow> (Inl UnexpectedResponse, w')
           | Some ps \<Rightarrow> (Inr (), w'\<lparr>collection := Some (upsert_point p ps)\<rparr>)))"

definition score_point :: "'v env \<Rightarrow> 'v \<Rightarrow> 'v point \<Rightarrow> hit" where
  "score_point env qvec p =
     \<lparr>hit_id = point_id p, hit_payload = point_payload p,
      hit_score = cosine env qvec (point_vector p)\<rparr>"

text \<open>Top-\<open>k\<close> search: the \<open>k\<close> best hits, best first.\<close>

definition top_k :: "'v env \<Rightarrow> 'v \<Rightarrow> nat \<Rightarrow> 'v point list \<Rightarrow> hit list" where
  "top_k env qvec k ps =
     take k (sort_key (\<lambda>h. - hit_score h) (map (score_point env qvec) ps))"

definition client_search :: "'v env \<Rightarrow> 'v \<Rightarrow> nat \<Rightarrow> 'v world \<Rightarrow> hit list result \<times> 'v world" where
  "client_search env qvec k w =
     (case call env (Search k) w of
        (Some e, w') \<Rightarrow> (Inl e, w')
      | (None, w') \<Rightarrow>
          (case collection w' of
             None \<Rightarrow> (Inl UnexpectedResponse, w')
           | Some ps \<Rightarrow> (Inr (top_k env qvec k ps), w')))"

subsection \<open>VectorStore\<close>

text \<open>
  \<open>_collection_exists\<close>: the loop \<open>for attempt in range(1, max_retries + 1)\<close> runs
  over the list of attempts; the empty list is the code after the loop.
\<close>

fun collection_exists_loop ::
  "'v env \<Rightarrow> nat list \<Rightarrow> 'v world \<Rightarrow> bool result \<times> 'v world" where
  "collection_exists_loop env [] w = (Inr False, w)"
| "collection_exists_loop env (attempt # rest) w =
     (case client_get_collections env w of
        (Inr collections, w') \<Rightarrow> (Inr (list_ex (\<lambda>name. name = COLLECTION_NAME) collections), w')
      | (Inl ResponseHandlingException, w') \<Rightarrow>
          collection_exists_loop env rest (sleep (attempt * 2) w')
      | (Inl _, w') \<Rightarrow> (Inr False, w'))"

definition collection_exists :: "'v env \<Rightarrow> 'v world \<Rightarrow> bool result \<times> 'v world" where
  "collection_exists env w = collection_exists_loop env [1 ..< max_retries + 1] w"

text \<open>
  \<open>_create_collection\<close>: the size of the sample embedding is passed to the client;
  a failure is logged and raised again.
\<close>

definition create_collection :: "'v env \<Rightarrow> 'v world \<Rightarrow> unit result \<times> 'v world" where
  "create_collection env w =
     (case client_create_collection env w of
        (Inl e, w') \<Rightarrow> (Inl e, w')
      | (Inr u, w') \<Rightarrow> (Inr u, w'))"

text \<open>
  The list comprehension of \<open>search_memories\<close>: each hit becomes a \<open>Memory\<close>;
  \<open>hit.payload.get\<close> raises AttributeError on a hit without payload.
\<close>

definition to_memory :: "hit \<Rightarrow> dict \<Rightarrow> memory" where
  "to_memory h payload =
     \<lparr>mem_text = (case payload ''text'' of None \<Rightarrow> '''' | Some t \<Rightarrow> t),
      mem_metadata = payload(''text'' := None),
      mem_score = Some (hit_score h)\<rparr>"

fun to_memories :: "hit list \<Rightarrow> memory list result" where
  "to_memories [] = Inr []"
| "to_memories (h # hs) =
     (case hit_payload h of
        None \<Rightarrow> Inl AttributeError
      | Some payload \<Rightarrow>
          (case to_memories hs of
             Inl e \<Rightarrow> Inl e
           | Inr ms \<Rightarrow> Inr (to_memory h payload # ms)))"

definition search_memories ::
  "'v env \<Rightarrow> string \<Rightarrow> nat \<Rightarrow> 'v world \<Rightarrow> memory list result \<times> 'v world" where
  "search_memories env query k w =
     (case collection_exists env w of
        (Inl e, w1) \<Rightarrow> (Inl e, w1)
      | (Inr False, w1) \<Rightarrow> (Inr [], w1)
      | (Inr True, w1) \<Rightarrow>
          (case client_search env (encode env query) k w1 of
             (Inl e, w2) \<Rightarrow> (Inr [], w2)
           | (Inr results, w2) \<Rightarrow> (to_memories results, w2)))"

definition find_similar_memory ::
  "'v env \<Rightarrow> string \<Rightarrow> 'v world \<Rightarrow> memory option result \<times> 'v world" where
  "find_similar_memory env txt w =
     (case search_memories env txt 1 w of
        (Inl e, w') \<Rightarrow> (Inl e, w')
      | (Inr results, w') \<Rightarrow>
          (Inr (case results of
                  [] \<Rightarrow> None
                | r # _ \<Rightarrow>
                    (case mem_score r of
                       None \<Rightarrow> None
                     | Some s \<Rightarrow> if s \<ge> SIMILARITY_THRESHOLD then Some r else None)), w'))"

text \<open>\<open>str(n)\<close> for a natural number: its decimal digits.\<close>

function str_nat :: "nat \<Rightarrow> string" where
  "str_nat n =
     (if n < 10 then [''0123456789'' ! n]
      else str_nat (n div 10) @ [''0123456789'' ! (n mod 10)])"
  by pat_completeness auto
termination
  by (relation "measure (\<lambda>n. n)") auto

text \<open>
  \<open>store_memory\<close>. The dictionary \<open>metadata\<close> is updated in place by the source:
  a similar memory with a non-empty id gives its id to the metadata.
\<close>

definition reuse_id :: "dict \<Rightarrow> memory option \<Rightarrow> dict" where
  "reuse_id metadata similar_memory =
     (case similar_memory of
        None \<Rightarrow> metadata
      | Some m \<Rightarrow>
          (case mem_id m of
             None \<Rightarrow> metadata
           | Some i \<Rightarrow> if i \<noteq> [] then metadata(''id'' \<mapsto> i) else metadata))"

text \<open>
  The point that is upserted: its id is the id of the metadata, or the decimal string of
  the absolute hash of the text when the metadata has none; the payload is
  \<open>{"text": text, **metadata}\<close>, where a key of \<open>metadata\<close> wins.
\<close>

definition point_struct :: "'v env \<Rightarrow> string \<Rightarrow> dict \<Rightarrow> 'v point" where
  "point_struct env txt metadata =
     (let vector = encode env txt;
          pid = (case metadata ''id'' of
                   Some i \<Rightarrow> i
                 | None \<Rightarrow> str_nat (nat \<bar>py_hash env txt\<bar>))
      in \<lparr>point_id = pid, point_vector = vector,
          point_payload = Some ([''text'' \<mapsto> txt] ++ metadata)\<rparr>)"

definition store_memory ::
  "'v env \<Rightarrow> string \<Rightarrow> dict \<Rightarrow> 'v world \<Rightarrow> unit result \<times> 'v world" where
  "store_memory env txt metadata w =
     (case collection_exists env w of
        (Inl e, w1) \<Rightarrow> (Inl e, w1)
      | (Inr ex, w1) \<Rightarrow>
          (case (if \<not> ex then create_collection env w1 else (Inr (), w1)) of
             (Inl e, w2) \<Rightarrow> (Inr (), w2)
           | (Inr u, w2) \<Rightarrow>
               (case find_similar_memory env txt w2 of
                  (Inl e, w3) \<Rightarrow> (Inl e, w3)
                | (Inr similar_memory, w3) \<Rightarrow>
                    (case client_upsert env
                            (point_struct env txt (reuse_id metadata similar_memory)) w3 of
                       (Inl e, w4) \<Rightarrow> (Inr (), w4)
                     | (Inr u', w4) \<Rightarrow> (Inr (), w4)))))"

section \<open>Long-term memory: the manager (memory\_manager.py)\<close>

text \<open>
  A message: \<open>getattr(message, "type", None)\<close> and its content. \<open>ainvoke env m\<close> is
  what the chat model with structured output answers to the analysis prompt formatted
  with the message \<open>m\<close>.
\<close>

record message =
  msg_type :: "string option"
  msg_content :: string

definition llm_ainvoke :: "'v env \<Rightarrow> string \<Rightarrow> 'v world \<Rightarrow> llm_reply \<times> 'v world" where
  "llm_ainvoke env m w = (ainvoke env m, tick (Ainvoke m) w)"

definition analyze_memory ::
  "'v env \<Rightarrow> string \<Rightarrow> 'v world \<Rightarrow> MemoryAnalysis result \<times> 'v world" where
  "analyze_memory env m w =
     (case llm_ainvoke env m w of
        (Raises e, w') \<Rightarrow> (Inr \<lparr>is_important = False, formatted_memory = None\<rparr>, w')
      | (NotAnalysis, w') \<Rightarrow> (Inr \<lparr>is_important = False, formatted_memory = None\<rparr>, w')
      | (Analysis analysis, w') \<Rightarrow> (Inr analysis, w'))"

text \<open>Truth value of an optional string: \<open>None\<close> and the empty string are false.\<close>

definition truthy :: "string option \<Rightarrow> bool" where
  "truthy s = (case s of None \<Rightarrow> False | Some t \<Rightarrow> t \<noteq> [])"

definition extract_and_store_memories ::
  "'v env \<Rightarrow> message \<Rightarrow> 'v world \<Rightarrow> unit result \<times> 'v world" where
  "extract_and_store_memories env msg w =
     (if msg_type msg \<noteq> Some ''human'' then (Inr (), w)
      else if msg_content msg = [] then (Inr (), w)
      else
        (case analyze_memory env (msg_content msg) w of
           (Inl e, w1) \<Rightarrow> (Inl e, w1)
         | (Inr analysis, w1) \<Rightarrow>
             if is_important analysis \<and> truthy (formatted_memory analysis) then
               (let fm = the (formatted_memory analysis) in
                case (case find_similar_memory env fm w1 of
                        (Inl e, w2) \<Rightarrow> (None, w2)
                      | (Inr similar, w2) \<Rightarrow> (similar, w2)) of
                  (Some similar, w2) \<Rightarrow> (Inr (), w2)
                | (None, w2) \<Rightarrow>
                    (let memory_id = uuid4 env (calls w2);
                         metadata = [''id'' \<mapsto> memory_id,
                                     ''timestamp'' \<mapsto> now_isoformat env (calls w2)]
                     in case store_memory env fm metadata w2 of
                          (Inl e, w3) \<Rightarrow> (Inr (), w3)
                        | (Inr u, w3) \<Rightarrow> (Inr (), w3)))
             else (Inr (), w1)))"

definition get_relevant_memories ::
  "'v env \<Rightarrow> string \<Rightarrow> 'v world \<Rightarrow> string list result \<times> 'v world" where
  "get_relevant_memories env context w =
     (case search_memories env context (MEMORY_TOP_K env) w of
        (Inl e, w') \<Rightarrow> (Inr [], w')
      | (Inr memories, w') \<Rightarrow> (Inr (map mem_text memories), w'))"

section \<open>Image generation (text\_to\_image.py)\<close>

text \<open>
  The two chat chains, the HTTP client and the file system are the environment of the
  image module: what the scenario chain and the enhancement chain answer (or raise), what
  the GET of the rendering URL answers after \<open>raise_for_status\<close>, and whether the
  image file can be written. Strings are byte strings; \<open>strip\<close> and \<open>title\<close> are
  modelled on ASCII.
\<close>

record ScenarioPrompt =
  narrative :: string
  image_prompt :: string

record image_env =
  scenario_chain :: "string \<Rightarrow> ScenarioPrompt result"
  enhance_chain :: "string \<Rightarrow> string result"
  http_get :: "string \<Rightarrow> string result"
  write_file :: "string \<Rightarrow> string \<Rightarrow> unit result"

definition api_url :: string where
  "api_url = ''https://image.pollinations.ai/prompt''"

definition is_space :: "char \<Rightarrow> bool" where
  "is_space c = (let n = (of_char c :: nat) in (9 \<le> n \<and> n \<le> 13) \<or> (28 \<le> n \<and> n \<le> 32))"

definition strip :: "string \<Rightarrow> string" where
  "strip s = rev (dropWhile is_space (rev (dropWhile is_space s)))"

definition is_upper :: "char \<Rightarrow> bool" where
  "is_upper c = (let n = (of_char c :: nat) in 65 \<le> n \<and> n \<le> 90)"

definition is_lower :: "char \<Rightarrow> bool" where
  "is_lower c = (let n = (of_char c :: nat) in 97 \<le> n \<and> n \<le> 122)"

definition is_digit :: "char \<Rightarrow> bool" where
  "is_digit c = (let n = (of_char c :: nat) in 48 \<le> n \<and> n \<le> 57)"

definition to_upper :: "char \<Rightarrow> char" where
  "to_upper c = (if is_lower c then char_of ((of_char c :: nat) - 32) else c)"

definition to_lower :: "char \<Rightarrow> char" where
  "to_lower c = (if is_upper c then char_of ((of_char c :: nat) + 32) else c)"

text \<open>
  \<open>str.title\<close>: a letter that follows a letter is lowered, any other letter is
  raised.
\<close>

fun title_from :: "bool \<Rightarrow> string \<Rightarrow> string" where
  "title_from previous_is_cased [] = []"
| "title_from previous_is_cased (c # cs) =
     (if is_upper c \<or> is_lower c
      then (if previous_is_cased then to_lower c else to_upper c) # title_from True cs
      else c # title_from False cs)"

definition title :: "string \<Rightarrow> string" where
  "title s = title_from False s"

fun join :: "string \<Rightarrow> string list \<Rightarrow> string" where
  "join sep [] = []"
| "join sep [x] = x"
| "join sep (x # y # ys) = x @ sep @ join sep (y # ys)"

text \<open>\<open>urllib.parse.quote\<close> with its default \<open>safe='/'\<close>.\<close>

definition hex_digit :: "nat \<Rightarrow> char" where
  "hex_digit n = ''0123456789ABCDEF'' ! n"

definition is_safe :: "char \<Rightarrow> bool" where
  "is_safe c = (is_upper c \<or> is_lower c \<or> is_digit c \<or> c \<in> set ''_.-~/'')"

definition quote_char :: "char \<Rightarrow> string" where
  "quote_char c =
     (if is_safe c then [c]
      else [CHR ''%'', hex_digit ((of_char c :: nat) div 16), hex_digit ((of_char c :: nat) mod 16)])"

definition quote :: "string \<Rightarrow> string" where
  "quote s = concat (map quote_char s)"

definition enhance_prompt :: "image_env \<Rightarrow> string \<Rightarrow> string result" where
  "enhance_prompt env prompt =
     (case enhance_chain env prompt of
        Inr enhanced_prompt \<Rightarrow> Inr enhanced_prompt
      | Inl e \<Rightarrow> Inr (prompt @ '', high quality, detailed, professional, 4k''))"

text \<open>The URL of the rendering request for an enhanced prompt.\<close>

definition image_url :: "string \<Rightarrow> string" where
  "image_url enhanced_prompt =
     api_url @ ''/'' @ quote enhanced_prompt @ ''?width=1024&height=768&model=flux&nologo=true''"

text \<open>
  \<open>generate_image\<close>: the check of the prompt is outside the \<open>try\<close>; both handlers
  raise \<open>TextToImageError\<close>.
\<close>

definition generate_image :: "image_env \<Rightarrow> string \<Rightarrow> string \<Rightarrow> string result" where
  "generate_image env prompt output_path =
     (if strip prompt = [] then Inl ValueError
      else
        (case (case enhance_prompt env prompt of
                 Inl e \<Rightarrow> Inl e
               | Inr enhanced_prompt \<Rightarrow>
                   (case http_get env (image_url enhanced_prompt) of
                      Inl e \<Rightarrow> Inl e
                    | Inr image_data \<Rightarrow>
                        if output_path \<noteq> [] then
                          (case write_file env output_path image_data of
                             Inl e \<Rightarrow> Inl e
                           | Inr u \<Rightarrow> Inr image_data)
                        else Inr image_data)) of
           Inl e \<Rightarrow> Inl TextToImageError
         | Inr image_data \<Rightarrow> Inr image_data))"

definition fallback_scenario :: ScenarioPrompt where
  "fallback_scenario =
     \<lparr>narrative = ''I'' @ [CHR 0x27] @ ''m imagining a beautiful scene...'',
      image_prompt =
        ''beautiful landscape with mountains and sunset, digital art, high quality, detailed''\<rparr>"

text \<open>One line of the formatted history: \<open>f"{msg.type.title()}: {msg.content}"\<close>.\<close>

definition format_message :: "message \<Rightarrow> string result" where
  "format_message msg =
     (case msg_type msg of
        None \<Rightarrow> Inl AttributeError
      | Some t \<Rightarrow> Inr (title t @ '': '' @ msg_content msg))"

fun format_messages :: "message list \<Rightarrow> string list result" where
  "format_messages [] = Inr []"
| "format_messages (msg # msgs) =
     (case format_message msg of
        Inl e \<Rightarrow> Inl e
      | Inr l \<Rightarrow> (case format_messages msgs of Inl e \<Rightarrow> Inl e | Inr ls \<Rightarrow> Inr (l # ls)))"

text \<open>
  \<open>create_scenario\<close>: the default argument \<open>None\<close> cannot be sliced, which the
  handler catches like every other failure.
\<close>

definition create_scenario :: "image_env \<Rightarrow> message list option \<Rightarrow> ScenarioPrompt result" where
  "create_scenario env chat_history =
     (case (case chat_history of
              None \<Rightarrow> Inl TypeError
            | Some history \<Rightarrow>
                (case format_messages (drop (length history - 5) history) of
                   Inl e \<Rightarrow> Inl e
                 | Inr ls \<Rightarrow> scenario_chain env (join [CHR 0x0A] ls))) of
        Inr scenario \<Rightarrow> Inr scenario
      | Inl e \<Rightarrow> Inr fallback_scenario)"

section \<open>The modality router\<close>

datatype modality = Conversation | Image | Audio

definition USER_SENT_IMAGE :: string where
  "USER_SENT_IMAGE = ''[USER_SENT_IMAGE]''"

definition IMAGE_ANALYSIS :: string where
  "IMAGE_ANALYSIS = ''[Image Analysis:''"

fun starts_with :: "string \<Rightarrow> string \<Rightarrow> bool" where
  "starts_with s [] = True"
| "starts_with [] (c # cs) = False"
| "starts_with (d # ds) (c # cs) = (d = c \<and> starts_with ds cs)"

fun contains :: "string \<Rightarrow> string \<Rightarrow> bool" where
  "contains [] sub = (sub = [])"
| "contains (c # cs) sub = (starts_with (c # cs) sub \<or> contains cs sub)"

text \<open>
  Modelled from the spec: the router's \<open>classify\<close>, whose node and chain are not among
  the source files (only \<open>ROUTER_PROMPT\<close> and the transports that write the markers
  are). The spec: if the most recent user turn contains the user-sent-image marker or an
  embedded image-analysis annotation, the result is forced to \<open>conversation\<close> before the
  classifier is called; otherwise the classifier is invoked with the full history and
  must return one of the three labels, any other output counting as \<open>conversation\<close>.
\<close>

definition latest_user_turn :: "message list \<Rightarrow> string option" where
  "latest_user_turn history =
     (case filter (\<lambda>m. msg_type m = Some ''human'') (rev history) of
        [] \<Rightarrow> None
      | m # _ \<Rightarrow> Some (msg_content m))"

definition parse_label :: "string result \<Rightarrow> modality" where
  "parse_label out =
     (if out = Inr ''image'' then Image
      else if out = Inr ''audio'' then Audio
      else Conversation)"

definition classify :: "(message list \<Rightarrow> string result) \<Rightarrow> message list \<Rightarrow> modality" where
  "classify classifier history =
     (case latest_user_turn history of
        Some turn \<Rightarrow>
          if contains turn USER_SENT_IMAGE \<or> contains turn IMAGE_ANALYSIS then Conversation
          else parse_label (classifier history)
      | None \<Rightarrow> parse_label (classifier history))"

text \<open>
  The backoff as the specification words it: exponential, starting at 2 time units,
  so the delay after attempt \<open>n\<close> is \<open>2 * 2 ^ (n - 1)\<close>.
\<close>

definition spec_exponential_delay :: "nat \<Rightarrow> nat" where
  "spec_exponential_delay attempt = 2 * 2 ^ (attempt - 1)"

section \<open>Example environments\<close>

text \<open>
  A small environment to run the model on: the embedding of a text is the text itself,
  two different texts that begin with the same five characters score 0.95, any other two
  score 0.1, every call succeeds, and the classifier finds every message important and
  formats it as it stands.
\<close>

definition example_cosine :: "string \<Rightarrow> string \<Rightarrow> real" where
  "example_cosine a b = (if a = b then 1 else if take 5 a = take 5 b then 0.95 else 0.1)"

definition example_env :: "string env" where
  "example_env =
     \<lparr>encode = (\<lambda>t. t), cosine = example_cosine, fault = (\<lambda>n. None),
      ainvoke = (\<lambda>m. Analysis \<lparr>is_important = True, formatted_memory = Some m\<rparr>),
      uuid4 = (\<lambda>n. ''uuid-'' @ str_nat n),
      now_isoformat = (\<lambda>n. ''2025-01-01T00:00:0'' @ str_nat n),
      py_hash = (\<lambda>t. - int (length t)), MEMORY_TOP_K = 2\<rparr>"

definition empty_world :: "string world" where
  "empty_world = \<lparr>collection = None, calls = 0, events = []\<rparr>"

definition HumanMessage :: "string \<Rightarrow> message" where
  "HumanMessage c = \<lparr>msg_type = Some ''human'', msg_content = c\<rparr>"

definition AIMessage :: "string \<Rightarrow> message" where
  "AIMessage c = \<lparr>msg_type = Some ''ai'', msg_content = c\<rparr>"

definition unreachable_env :: "string env" where
  "unreachable_env = example_env\<lparr>fault := (\<lambda>n. Some ResponseHandlingException)\<rparr>"

text \<open>The delays of a log, in order.\<close>

definition sleeps :: "event list \<Rightarrow> nat list" where
  "sleeps evs = concat (map (\<lambda>e. case e of Sleep n \<Rightarrow> [n] | _ \<Rightarrow> []) evs)"

text \<open>The text of a hit, as \<open>search_memories\<close> reads it from the payload.\<close>

definition payload_text :: "dict option \<Rightarrow> string" where
  "payload_text payload =
     (case payload of
        None \<Rightarrow> ''''
      | Some p \<Rightarrow> (case p ''text'' of None \<Rightarrow> '''' | Some t \<Rightarrow> t))"

text \<open>A stored memory as \<open>store_memory\<close> writes it for an id and a text.\<close>

definition memory_point :: "string \<Rightarrow> string \<Rightarrow> string point" where
  "memory_point i t =
     \<lparr>point_id = i, point_vector = t, point_payload = Some [''text'' \<mapsto> t, ''id'' \<mapsto> i]\<rparr>"

definition example_points :: "string point list" where
  "example_points =
     [memory_point ''a'' ''Studies at MIT'',
      memory_point ''b'' ''Lives near the sea'',
      memory_point ''c'' ''Lives in Karachi'']"

definition example_world :: "string world" where
  "example_world = \<lparr>collection = Some example_points, calls = 0, events = []\<rparr>"

text \<open>
  What \<open>find_similar_memory\<close> answers on the points of a reachable collection: the
  best hit, when its score reaches the threshold.
\<close>

definition best_match :: "'v env \<Rightarrow> string \<Rightarrow> 'v point list \<Rightarrow> memory option" where
  "best_match env t ps =
     (case top_k env (encode env t) 1 ps of
        [] \<Rightarrow> None
      | h # _ \<Rightarrow>
          (case hit_payload h of
             None \<Rightarrow> None
           | Some payload \<Rightarrow>
               if hit_score h \<ge> SIMILARITY_THRESHOLD then Some (to_memory h payload) else None))"

text \<open>The ids and the texts of the stored points, in the order of the collection.\<close>

definition stored_ids :: "'v world \<Rightarrow> string list" where
  "stored_ids w = (case collection w of None \<Rightarrow> [] | Some ps \<Rightarrow> map point_id ps)"

definition stored_texts :: "'v world \<Rightarrow> string list" where
  "stored_texts w =
     (case collection w of
        None \<Rightarrow> []
      | Some ps \<Rightarrow> map (\<lambda>p. payload_text (point_payload p)) ps)"

definition karachi_world :: "string world" where
  "karachi_world =
     \<lparr>collection = Some [memory_point ''a'' ''Lives in Karachi''], calls = 0, events = []\<rparr>"

text \<open>
  An index that holds one point written without payload, and an environment whose sixth
  call (number 5) fails.
\<close>

definition foreign_world :: "string world" where
  "foreign_world =
     \<lparr>collection = Some [\<lparr>point_id = ''x'', point_vector = ''Lives in Karachi'',
                          point_payload = None\<rparr>],
      calls = 0, events = []\<rparr>"

definition flaky_env :: "string env" where
  "flaky_env = example_env\<lparr>fault := (\<lambda>n. if n = 5 then Some OtherException else None)\<rparr>"

text \<open>
  An environment of the image module in which both chat chains and the rendering request
  fail, and one in which only the enhancement chain fails.
\<close>

definition failing_image_env :: image_env where
  "failing_image_env =
     \<lparr>scenario_chain = (\<lambda>h. Inl OtherException), enhance_chain = (\<lambda>p. Inl OtherException),
      http_get = (\<lambda>u. Inl HTTPError), write_file = (\<lambda>p d. Inr ())\<rparr>"

definition rendering_image_env :: image_env where
  "rendering_image_env =
     \<lparr>scenario_chain = (\<lambda>h. Inl OtherException), enhance_chain = (\<lambda>p. Inl OtherException),
      http_get = (\<lambda>u. Inr ''PNG''), write_file = (\<lambda>p d. Inr ())\<rparr>"

section \<open>Properties of the memory subsystem\<close>

subsection \<open>Calls and the existence probe\<close>

lemma call_eq: "call env ev w = (fault env (calls w), tick ev w)"
  by (simp add: call_def)

lemma tick_fields [simp]:
  "collection (tick ev w) = collection w"
  "calls (tick ev w) = Suc (calls w)"
  "events (tick ev w) = events w @ [ev]"
  by (simp_all add: tick_def)

lemma sleep_fields [simp]:
  "collection (sleep n w) = collection w"
  "calls (sleep n w) = calls w"
  "events (sleep n w) = events w @ [Sleep n]"
  by (simp_all add: sleep_def)

text \<open>One round of the probe, by the outcome of its call.\<close>

lemma loop_step:
  "collection_exists_loop env (a # rest) w =
     (case fault env (calls w) of
        None \<Rightarrow> (Inr (collection w \<noteq> None), tick GetCollections w)
      | Some e \<Rightarrow>
          if e = ResponseHandlingException
          then collection_exists_loop env rest (sleep (a * 2) (tick GetCollections w))
          else (Inr False, tick GetCollections w))"
  by (cases "fault env (calls w)"; cases "collection w")
     (auto simp: client_get_collections_def call_eq COLLECTION_NAME_def split: exn.splits)

lemma attempts: "[1 ..< max_retries + 1] = [1, 2, 3]"
  by (simp add: max_retries_def upt_rec)

lemma collection_exists_ok:
  "fault env (calls w) = None \<Longrightarrow>
   collection_exists env w = (Inr (collection w \<noteq> None), tick GetCollections w)"
  unfolding collection_exists_def attempts by (subst loop_step) simp

lemma loop_total: "\<exists>b. fst (collection_exists_loop env as w) = Inr b"
  by (induction as arbitrary: w)
     (auto simp: loop_step simp del: collection_exists_loop.simps(2) split: option.splits)

lemma loop_frame: "collection (snd (collection_exists_loop env as w)) = collection w"
  by (induction as arbitrary: w)
     (auto simp: loop_step simp del: collection_exists_loop.simps(2) split: option.splits)

lemma collection_exists_total: "\<exists>b. fst (collection_exists env w) = Inr b"
  by (simp add: collection_exists_def loop_total)

lemma collection_exists_frame: "collection (snd (collection_exists env w)) = collection w"
  by (simp add: collection_exists_def loop_frame)

subsection \<open>Messages that are skipped\<close>

text \<open>
  C3. A message whose type is not "human", and a human message with empty content, leaves
  \<open>extract_and_store_memories\<close> at once: the world is returned as it was, so the
  analysis classifier is not called and nothing is written to the index, and the result
  is a normal return, not an exception.
\<close>

theorem skip_non_human_or_empty:
  "msg_type msg \<noteq> Some ''human'' \<or> msg_content msg = [] \<Longrightarrow>
   extract_and_store_memories env msg w = (Inr (), w)"
  by (auto simp: extract_and_store_memories_def)

theorem skip_non_human_or_empty_witness:
  "extract_and_store_memories example_env (AIMessage ''I live in Karachi'') empty_world
     = (Inr (), empty_world)
   \<and> extract_and_store_memories example_env (HumanMessage []) empty_world
     = (Inr (), empty_world)"
  using skip_non_human_or_empty [of "AIMessage ''I live in Karachi''" example_env empty_world]
        skip_non_human_or_empty [of "HumanMessage []" example_env empty_world]
  by (simp add: AIMessage_def HumanMessage_def)

subsection \<open>A failing classifier\<close>

text \<open>
  C4. If the call of the memory-analysis classifier raises, or answers something that is
  not a \<open>MemoryAnalysis\<close>, the analysis is \<open>{is_important: false, formatted_memory:
  absent}\<close>; \<open>extract_and_store_memories\<close> then returns normally, the collection is
  what it was, and the only call it has made is that of the classifier (none when the
  message was skipped before).
\<close>

theorem classifier_failure_stores_nothing:
  assumes "ainvoke env (msg_content msg) = Raises e
           \<or> ainvoke env (msg_content msg) = NotAnalysis"
  shows "fst (analyze_memory env (msg_content msg) w)
           = Inr \<lparr>is_important = False, formatted_memory = None\<rparr>
       \<and> fst (extract_and_store_memories env msg w) = Inr ()
       \<and> collection (snd (extract_and_store_memories env msg w)) = collection w
       \<and> events (snd (extract_and_store_memories env msg w)) =
             events w @ (if msg_type msg = Some ''human'' \<and> msg_content msg \<noteq> []
                         then [Ainvoke (msg_content msg)] else [])"
  using assms
  by (auto simp: extract_and_store_memories_def analyze_memory_def llm_ainvoke_def truthy_def)

theorem classifier_failure_stores_nothing_witness:
  "ainvoke (example_env\<lparr>ainvoke := (\<lambda>m. Raises OtherException)\<rparr>)
       (msg_content (HumanMessage ''I study at MIT'')) = Raises OtherException
   \<and> fst (analyze_memory (example_env\<lparr>ainvoke := (\<lambda>m. Raises OtherException)\<rparr>)
       (msg_content (HumanMessage ''I study at MIT'')) empty_world)
       = Inr \<lparr>is_important = False, formatted_memory = None\<rparr>
   \<and> fst (extract_and_store_memories (example_env\<lparr>ainvoke := (\<lambda>m. Raises OtherException)\<rparr>)
        (HumanMessage ''I study at MIT'') empty_world) = Inr ()
   \<and> collection (snd (extract_and_store_memories
        (example_env\<lparr>ainvoke := (\<lambda>m. Raises OtherException)\<rparr>)
        (HumanMessage ''I study at MIT'') empty_world)) = None
   \<and> events (snd (extract_and_store_memories
        (example_env\<lparr>ainvoke := (\<lambda>m. Raises OtherException)\<rparr>)
        (HumanMessage ''I study at MIT'') empty_world)) = [Ainvoke ''I study at MIT'']"
proof -
  have h: "ainvoke (example_env\<lparr>ainvoke := (\<lambda>m. Raises OtherException)\<rparr>)
       (msg_content (HumanMessage ''I study at MIT'')) = Raises OtherException
     \<or> ainvoke (example_env\<lparr>ainvoke := (\<lambda>m. Raises OtherException)\<rparr>)
       (msg_content (HumanMessage ''I study at MIT'')) = NotAnalysis"
    by simp
  show ?thesis
    using classifier_failure_stores_nothing [OF h, of empty_world]
    by (simp add: HumanMessage_def empty_world_def)
qed

lemma collection_exists_shape:
  "\<exists>evs. events (snd (collection_exists env w)) = events w @ evs
     \<and> (evs = [GetCollections]
        \<or> evs = [GetCollections, Sleep 2, GetCollections]
        \<or> evs = [GetCollections, Sleep 2, GetCollections, Sleep 4, GetCollections]
        \<or> evs = [GetCollections, Sleep 2, GetCollections, Sleep 4, GetCollections, Sleep 6]
          \<and> fst (collection_exists env w) = Inr False)"
  unfolding collection_exists_def attempts
  by (simp add: loop_step del: collection_exists_loop.simps(2) split: option.splits)

lemma collection_exists_exhausted:
  "fault env (calls w) = Some ResponseHandlingException \<Longrightarrow>
   fault env (Suc (calls w)) = Some ResponseHandlingException \<Longrightarrow>
   fault env (Suc (Suc (calls w))) = Some ResponseHandlingException \<Longrightarrow>
   collection_exists env w =
     (Inr False, sleep 6 (tick GetCollections (sleep 4 (tick GetCollections
        (sleep 2 (tick GetCollections w))))))"
  unfolding collection_exists_def attempts
  by (simp add: loop_step del: collection_exists_loop.simps(2))

lemma store_memory_create_fails:
  assumes "fst (collection_exists env w) = Inr False"
      and "fst (create_collection env (snd (collection_exists env w))) = Inl e"
  shows "store_memory env txt md w = (Inr (), snd (create_collection env (snd (collection_exists env w))))"
  using assms
  by (auto simp: store_memory_def split: prod.splits sum.splits)

lemma create_collection_fails_frame:
  "fst (create_collection env w) = Inl e \<Longrightarrow>
   snd (create_collection env w) = tick CreateCollection w"
  by (auto simp: create_collection_def client_create_collection_def call_eq split: option.splits)

subsection \<open>The existence probe and a collection that cannot be created\<close>

text \<open>
  C6, as the code has it. The probe never raises and makes at most three attempts; after
  each attempt that cannot reach the index it sleeps twice the number of the attempt
  (2, 4 and 6 time units: the delay grows linearly and the last attempt is followed by a
  delay too), and after three such attempts it answers false. When the probe answers
  false and the creation of the collection then fails, \<open>store_memory\<close> returns
  normally after the creation attempt: nothing is searched or upserted and the collection
  is what it was.
\<close>

theorem probe_bounded_linear_backoff:
  "(\<exists>b evs. fst (collection_exists env w) = Inr b
     \<and> collection (snd (collection_exists env w)) = collection w
     \<and> events (snd (collection_exists env w)) = events w @ evs
     \<and> (evs = [GetCollections]
        \<or> evs = [GetCollections, Sleep 2, GetCollections]
        \<or> evs = [GetCollections, Sleep 2, GetCollections, Sleep 4, GetCollections]
        \<or> evs = [GetCollections, Sleep 2, GetCollections, Sleep 4, GetCollections, Sleep 6]
          \<and> fst (collection_exists env w) = Inr False))
   \<and> (fault env (calls w) = Some ResponseHandlingException
      \<and> fault env (Suc (calls w)) = Some ResponseHandlingException
      \<and> fault env (Suc (Suc (calls w))) = Some ResponseHandlingException
      \<longrightarrow> fst (collection_exists env w) = Inr False
        \<and> sleeps (events (snd (collection_exists env w))) = sleeps (events w) @ [2, 4, 6])
   \<and> (fst (collection_exists env w) = Inr False
      \<and> fst (create_collection env (snd (collection_exists env w))) = Inl e
      \<longrightarrow> store_memory env txt md w = (Inr (), tick CreateCollection (snd (collection_exists env w)))
        \<and> collection (tick CreateCollection (snd (collection_exists env w))) = collection w)"
proof (intro conjI impI)
  show "\<exists>b evs. fst (collection_exists env w) = Inr b
     \<and> collection (snd (collection_exists env w)) = collection w
     \<and> events (snd (collection_exists env w)) = events w @ evs
     \<and> (evs = [GetCollections]
        \<or> evs = [GetCollections, Sleep 2, GetCollections]
        \<or> evs = [GetCollections, Sleep 2, GetCollections, Sleep 4, GetCollections]
        \<or> evs = [GetCollections, Sleep 2, GetCollections, Sleep 4, GetCollections, Sleep 6]
          \<and> fst (collection_exists env w) = Inr False)"
    using collection_exists_shape [of env w] collection_exists_frame [of env w]
          collection_exists_total [of env w] by blast
next
  assume h: "fault env (calls w) = Some ResponseHandlingException
      \<and> fault env (Suc (calls w)) = Some ResponseHandlingException
      \<and> fault env (Suc (Suc (calls w))) = Some ResponseHandlingException"
  then show "fst (collection_exists env w) = Inr False"
    by (simp add: collection_exists_exhausted)
  from h show "sleeps (events (snd (collection_exists env w))) = sleeps (events w) @ [2, 4, 6]"
    by (simp add: collection_exists_exhausted sleeps_def)
next
  assume h: "fst (collection_exists env w) = Inr False
      \<and> fst (create_collection env (snd (collection_exists env w))) = Inl e"
  then show "store_memory env txt md w = (Inr (), tick CreateCollection (snd (collection_exists env w)))"
    using store_memory_create_fails [of env w e "txt" md]
          create_collection_fails_frame [of env "snd (collection_exists env w)" e]
    by simp
  show "collection (tick CreateCollection (snd (collection_exists env w))) = collection w"
    by (simp add: collection_exists_frame)
qed

lemma empty_world_fields [simp]:
  "collection empty_world = None" "calls empty_world = 0" "events empty_world = []"
  by (simp_all add: empty_world_def)

lemma unreachable_fault [simp]: "fault unreachable_env n = Some ResponseHandlingException"
  by (simp add: unreachable_env_def)

theorem probe_bounded_linear_backoff_witness:
  "fault unreachable_env (calls empty_world) = Some ResponseHandlingException
   \<and> fst (collection_exists unreachable_env empty_world) = Inr False
   \<and> sleeps (events (snd (collection_exists unreachable_env empty_world))) = [2, 4, 6]
   \<and> fst (create_collection unreachable_env (snd (collection_exists unreachable_env empty_world)))
       = Inl ResponseHandlingException
   \<and> fst (store_memory unreachable_env ''Lives in Karachi'' [''id'' \<mapsto> ''a''] empty_world) = Inr ()
   \<and> collection (snd (store_memory unreachable_env ''Lives in Karachi'' [''id'' \<mapsto> ''a''] empty_world)) = None
   \<and> events (snd (store_memory unreachable_env ''Lives in Karachi'' [''id'' \<mapsto> ''a''] empty_world)) =
       [GetCollections, Sleep 2, GetCollections, Sleep 4, GetCollections, Sleep 6, CreateCollection]"
proof -
  have c: "collection_exists unreachable_env empty_world =
     (Inr False, sleep 6 (tick GetCollections (sleep 4 (tick GetCollections
        (sleep 2 (tick GetCollections empty_world))))))"
    by (rule collection_exists_exhausted) simp_all
  have k: "fst (create_collection unreachable_env (snd (collection_exists unreachable_env empty_world)))
       = Inl ResponseHandlingException"
    by (simp add: c create_collection_def client_create_collection_def call_eq)
  show ?thesis
    using probe_bounded_linear_backoff
            [of unreachable_env empty_world ResponseHandlingException
                "''Lives in Karachi''" "[''id'' \<mapsto> ''a'']"] k
    by (simp add: c sleeps_def)
qed

text \<open>
  The delays of three failed attempts are 2, 4 and 6, where an exponential backoff
  starting at 2 would give 2, 4 and 8.
\<close>

theorem backoff_not_exponential_counterexample:
  "sleeps (events (snd (collection_exists unreachable_env empty_world))) = [2, 4, 6]
   \<and> map spec_exponential_delay [1 ..< max_retries + 1] = [2, 4, 8]
   \<and> sleeps (events (snd (collection_exists unreachable_env empty_world)))
       \<noteq> map spec_exponential_delay [1 ..< max_retries + 1]"
proof -
  have c: "collection_exists unreachable_env empty_world =
     (Inr False, sleep 6 (tick GetCollections (sleep 4 (tick GetCollections
        (sleep 2 (tick GetCollections empty_world))))))"
    by (rule collection_exists_exhausted) simp_all
  show ?thesis
    unfolding attempts by (simp add: c sleeps_def spec_exponential_delay_def)
qed

subsection \<open>Searching\<close>

lemma collection_exists_obtain:
  obtains b w1 where "collection_exists env w = (Inr b, w1)" "collection w1 = collection w"
proof -
  obtain b where "fst (collection_exists env w) = Inr b"
    using collection_exists_total by blast
  then have "collection_exists env w = (Inr b, snd (collection_exists env w))"
    by (metis prod.collapse)
  then show ?thesis
    using that collection_exists_frame by blast
qed

lemma collection_exists_missing:
  "collection w = None \<Longrightarrow> fst (collection_exists_loop env as w) = Inr False"
  by (induction as arbitrary: w)
     (auto simp: loop_step simp del: collection_exists_loop.simps(2) split: option.splits)

lemma collection_exists_all_faults:
  assumes "\<forall>n. fault env n \<noteq> None"
  shows "fst (collection_exists_loop env as w) = Inr False"
proof (induction as arbitrary: w)
  case Nil
  show ?case by simp
next
  case (Cons a as)
  from assms obtain e where "fault env (calls w) = Some e" by blast
  with Cons show ?case
    by (simp add: loop_step del: collection_exists_loop.simps(2))
qed

lemma to_memories_texts:
  "to_memories hs = Inr ms \<Longrightarrow> map mem_text ms = map (\<lambda>h. payload_text (hit_payload h)) hs"
  by (induction hs arbitrary: ms)
     (auto simp: payload_text_def to_memory_def split: option.splits sum.splits)

lemma to_memories_ok:
  "\<forall>h \<in> set hs. hit_payload h \<noteq> None \<Longrightarrow> \<exists>ms. to_memories hs = Inr ms"
  by (induction hs) (auto split: option.splits sum.splits)

lemma set_top_k: "set (top_k env q k ps) \<subseteq> score_point env q ` set ps"
  using set_take_subset [of k "sort_key (\<lambda>h. - hit_score h) (map (score_point env q) ps)"]
  by (simp add: top_k_def)

lemma top_k_payloads:
  "\<forall>p \<in> set ps. point_payload p \<noteq> None \<Longrightarrow> \<forall>h \<in> set (top_k env q k ps). hit_payload h \<noteq> None"
  using set_top_k [of env q k ps] by (auto simp: score_point_def)

lemma top_k_sorted: "sorted_wrt (\<lambda>a b. hit_score a \<ge> hit_score b) (top_k env q k ps)"
proof -
  have "sorted (map (\<lambda>h. - hit_score h)
          (sort_key (\<lambda>h. - hit_score h) (map (score_point env q) ps)))"
    by (rule sorted_sort_key)
  then have "sorted_wrt (\<lambda>a b. hit_score a \<ge> hit_score b)
          (sort_key (\<lambda>h. - hit_score h) (map (score_point env q) ps))"
    by (simp add: sorted_map)
  then show ?thesis
    unfolding top_k_def by (rule sorted_wrt_take)
qed

lemma length_top_k: "length (top_k env q k ps) = min k (length ps)"
  by (simp add: top_k_def min.commute)

text \<open>The answers of \<open>search_memories\<close>, by what the probe and the search call do.\<close>

lemma search_memories_probe_false:
  "fst (collection_exists env w) = Inr False \<Longrightarrow>
   search_memories env q k w = (Inr [], snd (collection_exists env w))"
  by (auto simp: search_memories_def split: prod.splits)

lemma search_memories_probe_true:
  assumes "fst (collection_exists env w) = Inr True"
  shows "search_memories env q k w =
     (case fault env (calls (snd (collection_exists env w))) of
        Some e \<Rightarrow> (Inr [], tick (Search k) (snd (collection_exists env w)))
      | None \<Rightarrow>
          (case collection w of
             None \<Rightarrow> (Inr [], tick (Search k) (snd (collection_exists env w)))
           | Some ps \<Rightarrow> (to_memories (top_k env (encode env q) k ps),
                         tick (Search k) (snd (collection_exists env w)))))"
proof -
  obtain b w1 where ce: "collection_exists env w = (Inr b, w1)" and fr: "collection w1 = collection w"
    by (rule collection_exists_obtain)
  with assms have b by simp
  with ce fr show ?thesis
    by (simp add: search_memories_def client_search_def call_eq split: option.splits)
qed

lemma get_relevant_memories_total: "\<exists>ts. fst (get_relevant_memories env c w) = Inr ts"
  by (simp add: get_relevant_memories_def split: prod.splits sum.splits)

lemma get_relevant_memories_cases:
  "fst (get_relevant_memories env c w) = Inr []
   \<or> (\<exists>ps. collection w = Some ps \<and> fst (collection_exists env w) = Inr True
         \<and> fault env (calls (snd (collection_exists env w))) = None
         \<and> fst (get_relevant_memories env c w) =
             Inr (map (\<lambda>h. payload_text (hit_payload h))
                    (top_k env (encode env c) (MEMORY_TOP_K env) ps)))"
proof -
  obtain b w1 where ce: "collection_exists env w = (Inr b, w1)" and fr: "collection w1 = collection w"
    by (rule collection_exists_obtain)
  show ?thesis
  proof (cases b)
    case False
    with ce show ?thesis
      by (simp add: get_relevant_memories_def search_memories_probe_false)
  next
    case True
    with ce have t: "fst (collection_exists env w) = Inr True" by simp
    show ?thesis
      using ce True to_memories_texts
      by (auto simp: get_relevant_memories_def search_memories_probe_true [OF t]
            split: option.splits sum.splits)
  qed
qed

lemma get_relevant_memories_success:
  assumes "collection w = Some ps" "fst (collection_exists env w) = Inr True"
      and "fault env (calls (snd (collection_exists env w))) = None"
      and "\<forall>p \<in> set ps. point_payload p \<noteq> None"
  shows "fst (get_relevant_memories env c w) =
           Inr (map (\<lambda>h. payload_text (hit_payload h))
                  (top_k env (encode env c) (MEMORY_TOP_K env) ps))"
proof -
  obtain ms where ms: "to_memories (top_k env (encode env c) (MEMORY_TOP_K env) ps) = Inr ms"
    using to_memories_ok [OF top_k_payloads [OF assms(4)]] by blast
  show ?thesis
    using assms(1,3) ms to_memories_texts [OF ms]
    by (simp add: get_relevant_memories_def search_memories_probe_true [OF assms(2)])
qed

text \<open>
  C5. \<open>get_relevant_memories\<close> never raises. It answers the empty list when the
  collection is missing, when the index cannot be reached, and whenever the search
  itself raises; any answer that is not empty is the list of the \<open>text\<close> fields of the
  top-k hits. When the probe finds the collection and the search call succeeds on points
  that all carry a payload, the answer is the \<open>text\<close> field of each of the top-k hits
  (at most \<open>MEMORY_TOP_K\<close> of them), in the order of the index: by descending score.
\<close>

theorem get_relevant_memories_fail_open:
  "(\<exists>ts. fst (get_relevant_memories env c w) = Inr ts)
   \<and> (collection w = None \<longrightarrow> fst (get_relevant_memories env c w) = Inr [])
   \<and> ((\<forall>n. fault env n \<noteq> None) \<longrightarrow> fst (get_relevant_memories env c w) = Inr [])
   \<and> (fst (search_memories env c (MEMORY_TOP_K env) w) = Inl e
        \<longrightarrow> fst (get_relevant_memories env c w) = Inr [])
   \<and> (fst (get_relevant_memories env c w) \<noteq> Inr []
        \<longrightarrow> (\<exists>ps. collection w = Some ps
              \<and> fst (get_relevant_memories env c w) =
                  Inr (map (\<lambda>h. payload_text (hit_payload h))
                         (top_k env (encode env c) (MEMORY_TOP_K env) ps))))
   \<and> (collection w = Some ps \<and> fst (collection_exists env w) = Inr True
        \<and> fault env (calls (snd (collection_exists env w))) = None
        \<and> (\<forall>p \<in> set ps. point_payload p \<noteq> None)
        \<longrightarrow> fst (get_relevant_memories env c w) =
              Inr (map (\<lambda>h. payload_text (hit_payload h))
                     (top_k env (encode env c) (MEMORY_TOP_K env) ps))
          \<and> sorted_wrt (\<lambda>a b. hit_score a \<ge> hit_score b)
               (top_k env (encode env c) (MEMORY_TOP_K env) ps)
          \<and> length (top_k env (encode env c) (MEMORY_TOP_K env) ps)
               = min (MEMORY_TOP_K env) (length ps))"
proof (intro conjI impI)
  show "\<exists>ts. fst (get_relevant_memories env c w) = Inr ts"
    by (rule get_relevant_memories_total)
next
  assume "collection w = None"
  then have "fst (collection_exists env w) = Inr False"
    by (simp add: collection_exists_def collection_exists_missing)
  then show "fst (get_relevant_memories env c w) = Inr []"
    by (simp add: get_relevant_memories_def search_memories_probe_false)
next
  assume "\<forall>n. fault env n \<noteq> None"
  then have "fst (collection_exists env w) = Inr False"
    by (simp add: collection_exists_def collection_exists_all_faults)
  then show "fst (get_relevant_memories env c w) = Inr []"
    by (simp add: get_relevant_memories_def search_memories_probe_false)
next
  assume "fst (search_memories env c (MEMORY_TOP_K env) w) = Inl e"
  then show "fst (get_relevant_memories env c w) = Inr []"
    by (cases "search_memories env c (MEMORY_TOP_K env) w") (simp add: get_relevant_memories_def)
next
  assume "fst (get_relevant_memories env c w) \<noteq> Inr []"
  then show "\<exists>ps. collection w = Some ps
              \<and> fst (get_relevant_memories env c w) =
                  Inr (map (\<lambda>h. payload_text (hit_payload h))
                         (top_k env (encode env c) (MEMORY_TOP_K env) ps))"
    using get_relevant_memories_cases [of env c w] by blast
next
  assume h: "collection w = Some ps \<and> fst (collection_exists env w) = Inr True
        \<and> fault env (calls (snd (collection_exists env w))) = None
        \<and> (\<forall>p \<in> set ps. point_payload p \<noteq> None)"
  then show "fst (get_relevant_memories env c w) =
              Inr (map (\<lambda>h. payload_text (hit_payload h))
                     (top_k env (encode env c) (MEMORY_TOP_K env) ps))"
    using get_relevant_memories_success [of w ps env c] by blast
  show "sorted_wrt (\<lambda>a b. hit_score a \<ge> hit_score b)
               (top_k env (encode env c) (MEMORY_TOP_K env) ps)"
    by (rule top_k_sorted)
  show "length (top_k env (encode env c) (MEMORY_TOP_K env) ps)
               = min (MEMORY_TOP_K env) (length ps)"
    by (rule length_top_k)
qed

lemma example_world_fields [simp]:
  "collection example_world = Some example_points" "calls example_world = 0"
  "events example_world = []"
  by (simp_all add: example_world_def)

lemma example_env_fields [simp]:
  "fault example_env n = None" "encode example_env t = t" "cosine example_env = example_cosine"
  "MEMORY_TOP_K example_env = 2"
  by (simp_all add: example_env_def)

lemma unreachable_env_fields [simp]:
  "encode unreachable_env t = t" "cosine unreachable_env = example_cosine"
  "MEMORY_TOP_K unreachable_env = 2"
  by (simp_all add: unreachable_env_def example_env_def)

theorem get_relevant_memories_fail_open_witness:
  "collection example_world = Some example_points
   \<and> fst (collection_exists example_env example_world) = Inr True
   \<and> fault example_env (calls (snd (collection_exists example_env example_world))) = None
   \<and> fst (get_relevant_memories example_env ''Lives in Karachi'' example_world)
       = Inr [''Lives in Karachi'', ''Lives near the sea'']
   \<and> fst (get_relevant_memories unreachable_env ''Lives in Karachi'' example_world) = Inr []"
proof -
  have h: "collection example_world = Some example_points
      \<and> fst (collection_exists example_env example_world) = Inr True
      \<and> fault example_env (calls (snd (collection_exists example_env example_world))) = None
      \<and> (\<forall>p \<in> set example_points. point_payload p \<noteq> None)"
    by (simp add: collection_exists_ok example_points_def memory_point_def)
  have t: "map (\<lambda>h. payload_text (hit_payload h))
             (top_k example_env (encode example_env ''Lives in Karachi'')
                (MEMORY_TOP_K example_env) example_points)
           = [''Lives in Karachi'', ''Lives near the sea'']"
    by (simp add: top_k_def example_points_def memory_point_def score_point_def
          example_cosine_def payload_text_def)
  have u: "\<forall>n. fault unreachable_env n \<noteq> None" by simp
  have a: "fst (get_relevant_memories example_env ''Lives in Karachi'' example_world)
       = Inr (map (\<lambda>h. payload_text (hit_payload h))
             (top_k example_env (encode example_env ''Lives in Karachi'')
                (MEMORY_TOP_K example_env) example_points))"
    using get_relevant_memories_fail_open
            [of example_env "''Lives in Karachi''" example_world OtherException example_points] h
    by blast
  have b: "fst (get_relevant_memories unreachable_env ''Lives in Karachi'' example_world) = Inr []"
    using get_relevant_memories_fail_open
            [of unreachable_env "''Lives in Karachi''" example_world OtherException example_points] u
    by blast
  from h a b show ?thesis unfolding t by blast
qed

subsection \<open>The store on a reachable index\<close>

lemma top_k_one: "top_k env q 1 ps = [] \<or> (\<exists>h. top_k env q 1 ps = [h])"
  using length_top_k [of env q 1 ps]
  by (cases "top_k env q 1 ps") (auto simp: min_def split: if_splits)

lemma find_similar_memory_missing:
  assumes "fault env (calls w) = None" "collection w = None"
  shows "find_similar_memory env t w = (Inr None, tick GetCollections w)"
  using assms
  by (simp add: find_similar_memory_def search_memories_def collection_exists_ok
        del: One_nat_def)

lemma find_similar_memory_ok:
  assumes "fault env (calls w) = None" "fault env (Suc (calls w)) = None"
      and "collection w = Some ps" "\<forall>p \<in> set ps. point_payload p \<noteq> None"
  shows "find_similar_memory env t w =
           (Inr (best_match env t ps), tick (Search 1) (tick GetCollections w))"
proof -
  have s: "search_memories env t 1 w =
             (to_memories (top_k env (encode env t) 1 ps),
              tick (Search 1) (tick GetCollections w))"
    using assms(1-3)
    by (simp add: search_memories_def collection_exists_ok client_search_def call_eq
          del: One_nat_def)
  from top_k_one [of env "encode env t" ps] show ?thesis
  proof
    assume "top_k env (encode env t) 1 ps = []"
    then show ?thesis
      by (simp add: find_similar_memory_def s best_match_def del: One_nat_def)
  next
    assume "\<exists>h. top_k env (encode env t) 1 ps = [h]"
    then obtain h where h: "top_k env (encode env t) 1 ps = [h]" by blast
    with top_k_payloads [OF assms(4), of env "encode env t" 1]
    obtain payload where "hit_payload h = Some payload" by auto
    with h show ?thesis
      by (simp add: find_similar_memory_def s best_match_def to_memory_def del: One_nat_def)
  qed
qed

lemma store_memory_ok:
  assumes "\<forall>n. fault env n = None" "collection w = Some ps"
      and "\<forall>p \<in> set ps. point_payload p \<noteq> None"
  shows "store_memory env t md w =
           (Inr (),
            \<lparr>collection = Some (upsert_point (point_struct env t (reuse_id md (best_match env t ps))) ps),
             calls = calls w + 4,
             events = events w @ [GetCollections, GetCollections, Search 1,
               Upsert (point_id (point_struct env t (reuse_id md (best_match env t ps))))]\<rparr>)"
proof -
  have f: "find_similar_memory env t (tick GetCollections w) =
             (Inr (best_match env t ps),
              tick (Search 1) (tick GetCollections (tick GetCollections w)))"
    using assms by (intro find_similar_memory_ok) simp_all
  show ?thesis
    using assms(1,2)
    by (simp add: store_memory_def collection_exists_ok f client_upsert_def call_eq
          del: One_nat_def)
qed

lemma best_match_Nil [simp]: "best_match env t [] = None"
  by (simp add: best_match_def top_k_def del: One_nat_def)

lemma store_memory_created:
  assumes "\<forall>n. fault env n = None" "collection w = None"
  shows "store_memory env t md w =
           (Inr (),
            \<lparr>collection = Some [point_struct env t md],
             calls = calls w + 5,
             events = events w @ [GetCollections, CreateCollection, GetCollections, Search 1,
               Upsert (point_id (point_struct env t md))]\<rparr>)"
proof -
  let ?w2 = "(tick CreateCollection (tick GetCollections w))\<lparr>collection := Some []\<rparr>"
  have c: "create_collection env (tick GetCollections w) = (Inr (), ?w2)"
    using assms by (simp add: create_collection_def client_create_collection_def call_eq)
  have f: "find_similar_memory env t ?w2 =
             (Inr (best_match env t []), tick (Search 1) (tick GetCollections ?w2))"
    using assms by (intro find_similar_memory_ok) simp_all
  show ?thesis
    using assms
    by (simp add: store_memory_def collection_exists_ok c f client_upsert_def call_eq
          reuse_id_def del: One_nat_def)
qed

lemma best_match_below:
  assumes "\<forall>p \<in> set ps. cosine env (encode env t) (point_vector p) < SIMILARITY_THRESHOLD"
  shows "best_match env t ps = None"
proof -
  from top_k_one [of env "encode env t" ps] show ?thesis
  proof
    assume "top_k env (encode env t) 1 ps = []"
    then show ?thesis by (simp add: best_match_def del: One_nat_def)
  next
    assume "\<exists>h. top_k env (encode env t) 1 ps = [h]"
    then obtain h where h: "top_k env (encode env t) 1 ps = [h]" by blast
    then have "h \<in> score_point env (encode env t) ` set ps"
      using set_top_k [of env "encode env t" 1 ps] by auto
    with assms have "hit_score h < SIMILARITY_THRESHOLD"
      by (auto simp: score_point_def)
    with h show ?thesis
      by (simp add: best_match_def split: option.splits del: One_nat_def)
  qed
qed

lemma score_point_fields [simp]:
  "hit_id (score_point env q p) = point_id p"
  "hit_payload (score_point env q p) = point_payload p"
  "hit_score (score_point env q p) = cosine env q (point_vector p)"
  by (simp_all add: score_point_def)

lemma best_match_single:
  "best_match env t [p] =
     (case point_payload p of
        None \<Rightarrow> None
      | Some payload \<Rightarrow>
          if cosine env (encode env t) (point_vector p) \<ge> SIMILARITY_THRESHOLD
          then Some (to_memory (score_point env (encode env t) p) payload) else None)"
  by (cases "point_payload p") (simp_all add: best_match_def top_k_def)

lemma upsert_point_fresh:
  "point_id p \<notin> point_id ` set ps \<Longrightarrow> upsert_point p ps = ps @ [p]"
  by (induction ps) auto

lemma point_struct_id:
  "md ''id'' = Some i \<Longrightarrow> point_id (point_struct env t md) = i"
  "md ''id'' = None \<Longrightarrow> point_id (point_struct env t md) = str_nat (nat \<bar>py_hash env t\<bar>)"
  by (simp_all add: point_struct_def)

lemma point_struct_payload [simp]:
  "point_payload (point_struct env t md) = Some ([''text'' \<mapsto> t] ++ md)"
  "point_vector (point_struct env t md) = encode env t"
  by (simp_all add: point_struct_def)

text \<open>
  The manager on a reachable index, for a human message whose analysis is important
  with the fact \<open>fm\<close>.
\<close>

lemma add_3_Suc: "n + 3 = Suc (Suc (Suc n))"
  by simp

lemma analyze_memory_ok:
  "ainvoke env m = Analysis a \<Longrightarrow> analyze_memory env m w = (Inr a, tick (Ainvoke m) w)"
  by (simp add: analyze_memory_def llm_ainvoke_def)

lemma extract_existing:
  assumes "\<forall>n. fault env n = None"
      and "msg_type msg = Some ''human''" "msg_content msg \<noteq> []"
      and "ainvoke env (msg_content msg) = Analysis a" "is_important a"
      and "formatted_memory a = Some fm" "fm \<noteq> []"
      and "collection w = Some ps" "\<forall>p \<in> set ps. point_payload p \<noteq> None"
  shows "extract_and_store_memories env msg w =
     (case best_match env fm ps of
        Some m \<Rightarrow>
          (Inr (), \<lparr>collection = Some ps, calls = calls w + 3,
                    events = events w @ [Ainvoke (msg_content msg), GetCollections, Search 1]\<rparr>)
      | None \<Rightarrow>
          (Inr (),
           \<lparr>collection = Some (upsert_point
                (point_struct env fm
                   [''id'' \<mapsto> uuid4 env (calls w + 3),
                    ''timestamp'' \<mapsto> now_isoformat env (calls w + 3)]) ps),
            calls = calls w + 7,
            events = events w @ [Ainvoke (msg_content msg), GetCollections, Search 1,
              GetCollections, GetCollections, Search 1, Upsert (uuid4 env (calls w + 3))]\<rparr>))"
proof -
  let ?w1 = "tick (Ainvoke (msg_content msg)) w"
  let ?w2 = "tick (Search 1) (tick GetCollections ?w1)"
  have f: "find_similar_memory env fm ?w1 = (Inr (best_match env fm ps), ?w2)"
    using assms(1,8,9) by (intro find_similar_memory_ok) simp_all
  show ?thesis
  proof (cases "best_match env fm ps")
    case (Some m)
    with assms(2-7) show ?thesis
      apply (simp add: extract_and_store_memories_def analyze_memory_ok truthy_def f
               del: One_nat_def)
      apply (simp add: tick_def assms(8))
      done
  next
    case None
    have c: "collection ?w2 = Some ps"
      using assms(8) by simp
    note s = store_memory_ok [OF assms(1) c assms(9)]
    from assms(2-7) None show ?thesis
      by (simp add: extract_and_store_memories_def analyze_memory_ok truthy_def f s
            reuse_id_def point_struct_id add_3_Suc del: One_nat_def)
  qed
qed

lemma extract_created:
  assumes "\<forall>n. fault env n = None"
      and "msg_type msg = Some ''human''" "msg_content msg \<noteq> []"
      and "ainvoke env (msg_content msg) = Analysis a" "is_important a"
      and "formatted_memory a = Some fm" "fm \<noteq> []"
      and "collection w = None"
  shows "extract_and_store_memories env msg w =
     (Inr (),
      \<lparr>collection = Some [point_struct env fm
           [''id'' \<mapsto> uuid4 env (calls w + 2),
            ''timestamp'' \<mapsto> now_isoformat env (calls w + 2)]],
       calls = calls w + 7,
       events = events w @ [Ainvoke (msg_content msg), GetCollections,
         GetCollections, CreateCollection, GetCollections, Search 1,
         Upsert (uuid4 env (calls w + 2))]\<rparr>)"
proof -
  let ?w1 = "tick (Ainvoke (msg_content msg)) w"
  let ?w2 = "tick GetCollections ?w1"
  have f: "find_similar_memory env fm ?w1 = (Inr None, ?w2)"
    using assms(1,8) by (intro find_similar_memory_missing) simp_all
  have c: "collection ?w2 = None"
    using assms(8) by simp
  note s = store_memory_created [OF assms(1) c]
  from assms(2-7) show ?thesis
    by (simp add: extract_and_store_memories_def analyze_memory_ok truthy_def f s
          point_struct_id del: One_nat_def)
qed

subsection \<open>The id of a new record\<close>


lemma example_env_more_fields [simp]:
  "ainvoke example_env m = Analysis \<lparr>is_important = True, formatted_memory = Some m\<rparr>"
  "uuid4 example_env n = ''uuid-'' @ str_nat n"
  "now_isoformat example_env n = ''2025-01-01T00:00:0'' @ str_nat n"
  "py_hash example_env t = - int (length t)"
  by (simp_all add: example_env_def)


subsection \<open>Near-duplicates\<close>

lemma HumanMessage_fields [simp]:
  "msg_type (HumanMessage c) = Some ''human''" "msg_content (HumanMessage c) = c"
  by (simp_all add: HumanMessage_def)

lemma reuse_id_match:
  "payload ''id'' = Some i \<Longrightarrow> i \<noteq> [] \<Longrightarrow>
   reuse_id md (Some (to_memory h payload)) = md(''id'' \<mapsto> i)"
  by (simp add: reuse_id_def mem_id_def to_memory_def)

lemma first_memory_stored:
  assumes "\<forall>n. fault env n = None"
      and "collection w = None \<or> collection w = Some []"
      and "m \<noteq> []" "ainvoke env m = Analysis \<lparr>is_important = True, formatted_memory = Some f\<rparr>"
      and "f \<noteq> []"
  shows "collection (snd (extract_and_store_memories env (HumanMessage m) w)) =
           Some [\<lparr>point_id = uuid4 env (calls w + (if collection w = None then 2 else 3)),
                  point_vector = encode env f,
                  point_payload = Some [''text'' \<mapsto> f,
                    ''id'' \<mapsto> uuid4 env (calls w + (if collection w = None then 2 else 3)),
                    ''timestamp'' \<mapsto>
                      now_isoformat env (calls w + (if collection w = None then 2 else 3))]\<rparr>]
       \<and> calls (snd (extract_and_store_memories env (HumanMessage m) w)) = calls w + 7"
  using assms(2)
proof
  assume c: "collection w = None"
  show ?thesis
    using extract_created
            [of env "HumanMessage m" "\<lparr>is_important = True, formatted_memory = Some f\<rparr>" f w]
          assms(1,3-5) c
    by (simp add: point_struct_def)
next
  assume c: "collection w = Some []"
  show ?thesis
    using extract_existing
            [of env "HumanMessage m" "\<lparr>is_important = True, formatted_memory = Some f\<rparr>" f w "[]"]
          assms(1,3-5) c
    by (simp add: point_struct_def)
qed

text \<open>The example environment on an empty index: one fact, then a paraphrase of it.\<close>

lemma example_first:
  "snd (extract_and_store_memories example_env (HumanMessage ''Lives in Karachi'') empty_world) =
     \<lparr>collection = Some
        [\<lparr>point_id = ''uuid-2'', point_vector = ''Lives in Karachi'',
          point_payload = Some [''text'' \<mapsto> ''Lives in Karachi'', ''id'' \<mapsto> ''uuid-2'',
            ''timestamp'' \<mapsto> ''2025-01-01T00:00:02'']\<rparr>],
      calls = 7,
      events = [Ainvoke ''Lives in Karachi'', GetCollections, GetCollections, CreateCollection,
        GetCollections, Search 1, Upsert ''uuid-2'']\<rparr>"
proof -
  have "extract_and_store_memories example_env (HumanMessage ''Lives in Karachi'') empty_world =
     (Inr (),
      \<lparr>collection = Some [point_struct example_env ''Lives in Karachi''
           [''id'' \<mapsto> uuid4 example_env (calls empty_world + 2),
            ''timestamp'' \<mapsto> now_isoformat example_env (calls empty_world + 2)]],
       calls = calls empty_world + 7,
       events = events empty_world @ [Ainvoke (msg_content (HumanMessage ''Lives in Karachi'')),
         GetCollections, GetCollections, CreateCollection, GetCollections, Search 1,
         Upsert (uuid4 example_env (calls empty_world + 2))]\<rparr>)"
    using extract_created
            [of example_env "HumanMessage ''Lives in Karachi''"
               "\<lparr>is_important = True, formatted_memory = Some ''Lives in Karachi''\<rparr>"
               "''Lives in Karachi''" empty_world]
    by simp
  then show ?thesis
    by (simp add: point_struct_def)
qed

lemma example_paraphrase_skipped:
  "collection (snd (extract_and_store_memories example_env
       (HumanMessage ''Lives in Karachi, Pakistan'')
       (snd (extract_and_store_memories example_env (HumanMessage ''Lives in Karachi'')
          empty_world)))) =
     Some [\<lparr>point_id = ''uuid-2'', point_vector = ''Lives in Karachi'',
          point_payload = Some [''text'' \<mapsto> ''Lives in Karachi'', ''id'' \<mapsto> ''uuid-2'',
            ''timestamp'' \<mapsto> ''2025-01-01T00:00:02'']\<rparr>]"
proof -
  define p :: "string point" where
    "p = \<lparr>point_id = ''uuid-2'', point_vector = ''Lives in Karachi'',
          point_payload = Some [''text'' \<mapsto> ''Lives in Karachi'', ''id'' \<mapsto> ''uuid-2'',
            ''timestamp'' \<mapsto> ''2025-01-01T00:00:02'']\<rparr>"
  define w1 where
    "w1 = snd (extract_and_store_memories example_env (HumanMessage ''Lives in Karachi'')
          empty_world)"
  have c: "collection w1 = Some [p]"
    by (simp add: w1_def p_def example_first)
  have wf: "\<forall>q \<in> set [p]. point_payload q \<noteq> None"
    by (simp add: p_def)
  obtain m where b: "best_match example_env ''Lives in Karachi, Pakistan'' [p] = Some m"
    by (simp add: best_match_single p_def example_cosine_def SIMILARITY_THRESHOLD_def)
  have a: "\<forall>n. fault example_env n = None" by simp
  have "collection (snd (extract_and_store_memories example_env
          (HumanMessage ''Lives in Karachi, Pakistan'') w1)) = Some [p]"
    using extract_existing
            [of example_env "HumanMessage ''Lives in Karachi, Pakistan''"
               "\<lparr>is_important = True,
                 formatted_memory = Some ''Lives in Karachi, Pakistan''\<rparr>"
               "''Lives in Karachi, Pakistan''" w1 "[p]", OF a _ _ _ _ _ _ c wf]
    by (simp add: b)
  then show ?thesis
    by (simp add: w1_def p_def)
qed



subsection \<open>Writing the same record twice\<close>

lemma set_upsert_point: "set (upsert_point p ps) \<subseteq> insert p (set ps)"
  by (induction ps) auto

lemma upsert_point_idem: "upsert_point p (upsert_point p ps) = upsert_point p ps"
  by (induction ps) auto

lemma upsert_point_ids:
  "point_id ` set (upsert_point p ps) = insert (point_id p) (point_id ` set ps)"
  by (induction ps) auto

lemma upsert_point_count:
  "distinct (map point_id ps) \<Longrightarrow>
   count_list (map point_id (upsert_point p ps)) (point_id p) = 1"
proof (induction ps)
  case Nil
  show ?case by simp
next
  case (Cons q qs)
  show ?case
  proof (cases "point_id q = point_id p")
    case True
    with Cons.prems have "point_id p \<notin> set (map point_id qs)"
      by auto
    then have "count_list (map point_id qs) (point_id p) = 0"
      by (rule count_notin)
    with True show ?thesis by simp
  next
    case False
    with Cons show ?thesis by simp
  qed
qed

lemma best_match_Some:
  assumes "best_match env t ps = Some m"
  shows "\<exists>p \<in> set ps. \<exists>payload. point_payload p = Some payload
           \<and> SIMILARITY_THRESHOLD \<le> cosine env (encode env t) (point_vector p)
           \<and> m = to_memory (score_point env (encode env t) p) payload"
proof -
  from top_k_one [of env "encode env t" ps] show ?thesis
  proof
    assume "top_k env (encode env t) 1 ps = []"
    with assms show ?thesis by (simp add: best_match_def del: One_nat_def)
  next
    assume "\<exists>h. top_k env (encode env t) 1 ps = [h]"
    then obtain h where h: "top_k env (encode env t) 1 ps = [h]" by blast
    then have "h \<in> score_point env (encode env t) ` set ps"
      using set_top_k [of env "encode env t" 1 ps] by auto
    then obtain p where p: "p \<in> set ps" "h = score_point env (encode env t) p" by blast
    from assms h p show ?thesis
      by (auto simp: best_match_def split: option.splits if_splits simp del: One_nat_def)
  qed
qed

text \<open>A second write of the same pair finds at most its own record as a near-duplicate.\<close>

lemma reuse_id_own_record:
  assumes "\<forall>p \<in> set ps. cosine env (encode env t) (point_vector p) < SIMILARITY_THRESHOLD"
      and "md ''id'' = Some i"
  shows "reuse_id md (best_match env t (upsert_point (point_struct env t md) ps)) = md"
proof (cases "best_match env t (upsert_point (point_struct env t md) ps)")
  case None
  then show ?thesis by (simp add: reuse_id_def)
next
  case (Some m)
  from best_match_Some [OF Some] obtain p payload where
    p: "p \<in> set (upsert_point (point_struct env t md) ps)"
       "point_payload p = Some payload"
       "SIMILARITY_THRESHOLD \<le> cosine env (encode env t) (point_vector p)"
       "m = to_memory (score_point env (encode env t) p) payload"
    by blast
  from p(1) set_upsert_point [of "point_struct env t md" ps]
  have "p = point_struct env t md \<or> p \<in> set ps" by auto
  with p(3) assms(1) have "p = point_struct env t md" by fastforce
  with p(2) have "payload = [''text'' \<mapsto> t] ++ md" by simp
  with assms(2) have "mem_id m = Some i"
    by (simp add: p(4) mem_id_def to_memory_def)
  with Some assms(2) show ?thesis
    by (simp add: reuse_id_def map_upd_triv)
qed


lemma karachi_world_fields [simp]:
  "collection karachi_world = Some [memory_point ''a'' ''Lives in Karachi'']"
  "calls karachi_world = 0" "events karachi_world = []"
  by (simp_all add: karachi_world_def)



subsection \<open>A failing similarity check\<close>


lemma foreign_world_fields [simp]:
  "collection foreign_world =
     Some [\<lparr>point_id = ''x'', point_vector = ''Lives in Karachi'', point_payload = None\<rparr>]"
  "calls foreign_world = 0" "events foreign_world = []"
  by (simp_all add: foreign_world_def)

lemma flaky_env_fields [simp]:
  "fault flaky_env n = (if n = 5 then Some OtherException else None)"
  "encode flaky_env t = t" "cosine flaky_env = example_cosine"
  "ainvoke flaky_env m = Analysis \<lparr>is_important = True, formatted_memory = Some m\<rparr>"
  "uuid4 flaky_env n = ''uuid-'' @ str_nat n"
  "now_isoformat flaky_env n = ''2025-01-01T00:00:0'' @ str_nat n"
  by (simp_all add: flaky_env_def example_env_def)

text \<open>The similarity check on the point without payload raises.\<close>

lemma find_similar_memory_raises:
  assumes "fault env (calls w) = None" "fault env (Suc (calls w)) = None"
      and "collection w = Some [\<lparr>point_id = i, point_vector = v, point_payload = None\<rparr>]"
  shows "find_similar_memory env t w =
           (Inl AttributeError, tick (Search 1) (tick GetCollections w))"
  using assms
  by (simp add: find_similar_memory_def search_memories_def collection_exists_ok
        client_search_def call_eq top_k_def score_point_def del: One_nat_def)



section \<open>Properties of the image module\<close>

lemma create_scenario_total: "\<exists>s. create_scenario env chat_history = Inr s"
  by (simp add: create_scenario_def split: option.splits sum.splits)

lemma enhance_prompt_total: "\<exists>p. enhance_prompt env prompt = Inr p"
  by (simp add: enhance_prompt_def split: sum.splits)


lemma strip_sunset: "strip ''a sunset'' = ''a sunset''"
  by (simp add: strip_def is_space_def)



section \<open>Properties of the router\<close>

text \<open>
  C2. When the most recent user turn of the history contains the marker
  "[USER_SENT_IMAGE]" or an "[Image Analysis:" annotation, \<open>classify\<close> answers
  \<open>conversation\<close> whatever the classifier would answer: the override is decided
  before the classifier is consulted.
\<close>

theorem image_marker_forces_conversation:
  assumes "latest_user_turn history = Some turn"
      and "contains turn USER_SENT_IMAGE \<or> contains turn IMAGE_ANALYSIS"
  shows "classify classifier history = Conversation"
  using assms by (simp add: classify_def)

theorem image_marker_forces_conversation_witness:
  "latest_user_turn
     [HumanMessage ''hey'', AIMessage ''yo'', HumanMessage ''[USER_SENT_IMAGE] what is this?'']
     = Some ''[USER_SENT_IMAGE] what is this?''
   \<and> contains ''[USER_SENT_IMAGE] what is this?'' USER_SENT_IMAGE
   \<and> classify (\<lambda>h. Inr ''image'')
       [HumanMessage ''hey'', AIMessage ''yo'', HumanMessage ''[USER_SENT_IMAGE] what is this?'']
     = Conversation"
proof -
  have a: "latest_user_turn
     [HumanMessage ''hey'', AIMessage ''yo'', HumanMessage ''[USER_SENT_IMAGE] what is this?'']
     = Some ''[USER_SENT_IMAGE] what is this?''"
    by (simp add: latest_user_turn_def HumanMessage_def AIMessage_def)
  have b: "contains ''[USER_SENT_IMAGE] what is this?'' USER_SENT_IMAGE"
    by (simp add: USER_SENT_IMAGE_def)
  from b have c: "contains ''[USER_SENT_IMAGE] what is this?'' USER_SENT_IMAGE
      \<or> contains ''[USER_SENT_IMAGE] what is this?'' IMAGE_ANALYSIS"
    by simp
  from image_marker_forces_conversation [OF a c, of "\<lambda>h. Inr ''image''"] a b
  show ?thesis by simp
qed

end
